theory Spec2Isabelle
  imports Complex_Main "HOL-Library.Product_Lexorder"
begin

section \<open>Arbitrary-precision decimals (bignumber.js, default configuration)\<close>

text \<open>
  Users.ts computes with \<open>BigNumber\<close> values and stores them in records as decimal
  strings (\<open>toFixed()\<close>, \<open>toString()\<close>, read back by \<open>new BigNumber(s)\<close>).
  A finite BigNumber is a decimal fraction, hence a rational; the library also has the
  values NaN and plus or minus Infinity. Sums, differences and products are exact; a
  quotient is rounded to 20 decimal places, half away from zero (DECIMAL_PLACES 20,
  ROUNDING_MODE 4, the defaults, which Users.ts never changes).

  A decimal string is represented by the value it denotes, so printing without a
  precision argument and parsing are the identity. The sign of zero, which a printed
  string can show as a leading minus, is not represented.
\<close>

datatype bignumber = Fin rat | PInf | NInf | NaN

definition roundHalfUp :: "nat \<Rightarrow> rat \<Rightarrow> rat" where
  "roundHalfUp dp r = sgn r * of_int \<lfloor>\<bar>r\<bar> * 10 ^ dp + 1 / 2\<rfloor> / 10 ^ dp"

fun bn_negated :: "bignumber \<Rightarrow> bignumber" where
  "bn_negated (Fin a) = Fin (- a)"
| "bn_negated PInf = NInf"
| "bn_negated NInf = PInf"
| "bn_negated NaN = NaN"

fun bn_abs :: "bignumber \<Rightarrow> bignumber" where
  "bn_abs (Fin a) = Fin \<bar>a\<bar>"
| "bn_abs PInf = PInf"
| "bn_abs NInf = PInf"
| "bn_abs NaN = NaN"

fun bn_plus :: "bignumber \<Rightarrow> bignumber \<Rightarrow> bignumber" where
  "bn_plus (Fin a) (Fin b) = Fin (a + b)"
| "bn_plus NaN y = NaN"
| "bn_plus x NaN = NaN"
| "bn_plus PInf NInf = NaN"
| "bn_plus NInf PInf = NaN"
| "bn_plus PInf y = PInf"
| "bn_plus NInf y = NInf"
| "bn_plus x PInf = PInf"
| "bn_plus x NInf = NInf"

definition bn_minus :: "bignumber \<Rightarrow> bignumber \<Rightarrow> bignumber" where
  "bn_minus x y = bn_plus x (bn_negated y)"

text \<open>The sign of a value that is not NaN: -1, 0 or 1.\<close>

fun bn_sign :: "bignumber \<Rightarrow> int" where
  "bn_sign (Fin a) = (if a < 0 then - 1 else if a = 0 then 0 else 1)"
| "bn_sign PInf = 1"
| "bn_sign NInf = - 1"
| "bn_sign NaN = 0"

definition bn_signedInf :: "int \<Rightarrow> bignumber" where
  "bn_signedInf s = (if s < 0 then NInf else PInf)"

fun bn_times :: "bignumber \<Rightarrow> bignumber \<Rightarrow> bignumber" where
  "bn_times (Fin a) (Fin b) = Fin (a * b)"
| "bn_times NaN y = NaN"
| "bn_times x NaN = NaN"
| "bn_times x y =
     (if bn_sign x = 0 \<or> bn_sign y = 0 then NaN else bn_signedInf (bn_sign x * bn_sign y))"

text \<open>
  Division: NaN when an operand is NaN, when both are zero or both infinite; zero when
  the dividend is zero or the divisor infinite; an infinity when the divisor is zero or
  the dividend infinite; otherwise the quotient rounded to 20 places.
\<close>

fun bn_div :: "bignumber \<Rightarrow> bignumber \<Rightarrow> bignumber" where
  "bn_div (Fin a) (Fin b) =
     (if b = 0 then (if a = 0 then NaN else bn_signedInf (bn_sign (Fin a)))
      else Fin (roundHalfUp 20 (a / b)))"
| "bn_div NaN y = NaN"
| "bn_div x NaN = NaN"
| "bn_div (Fin a) y = Fin 0"
| "bn_div x (Fin b) = bn_signedInf (bn_sign x * (if b < 0 then - 1 else 1))"
| "bn_div x y = NaN"

fun bn_isZero :: "bignumber \<Rightarrow> bool" where
  "bn_isZero (Fin a) = (a = 0)"
| "bn_isZero x = False"

fun bn_isNegative :: "bignumber \<Rightarrow> bool" where
  "bn_isNegative (Fin a) = (a < 0)"
| "bn_isNegative NInf = True"
| "bn_isNegative x = False"

fun bn_isFinite :: "bignumber \<Rightarrow> bool" where
  "bn_isFinite (Fin a) = True"
| "bn_isFinite x = False"

text \<open>Comparisons are false as soon as one side is NaN.\<close>

fun bn_lt :: "bignumber \<Rightarrow> bignumber \<Rightarrow> bool" where
  "bn_lt (Fin a) (Fin b) = (a < b)"
| "bn_lt NaN y = False"
| "bn_lt x NaN = False"
| "bn_lt x PInf = (x \<noteq> PInf)"
| "bn_lt NInf y = (y \<noteq> NInf)"
| "bn_lt x y = False"

definition bn_gt :: "bignumber \<Rightarrow> bignumber \<Rightarrow> bool" where
  "bn_gt x y = bn_lt y x"

definition bn_eq :: "bignumber \<Rightarrow> bignumber \<Rightarrow> bool" where
  "bn_eq x y = (x \<noteq> NaN \<and> x = y)"

definition bn_lte :: "bignumber \<Rightarrow> bignumber \<Rightarrow> bool" where
  "bn_lte x y = (bn_lt x y \<or> bn_eq x y)"

definition bn_gte :: "bignumber \<Rightarrow> bignumber \<Rightarrow> bool" where
  "bn_gte x y = bn_lte y x"

text \<open>\<open>BigNumber.min\<close>: NaN when an argument is NaN, else the least argument.\<close>

definition bn_min2 :: "bignumber \<Rightarrow> bignumber \<Rightarrow> bignumber" where
  "bn_min2 x y = (if x = NaN \<or> y = NaN then NaN else if bn_lt y x then y else x)"

fun bn_min :: "bignumber \<Rightarrow> bignumber list \<Rightarrow> bignumber" where
  "bn_min x [] = x"
| "bn_min x (y # ys) = bn_min (bn_min2 x y) ys"

text \<open>
  \<open>toFixed(dp)\<close>: the value rounded to \<open>dp\<close> places, half away from zero; NaN and the
  infinities print as the strings NaN, Infinity and -Infinity, which denote themselves.
\<close>

fun bn_toFixed :: "nat \<Rightarrow> bignumber \<Rightarrow> bignumber" where
  "bn_toFixed dp (Fin a) = Fin (roundHalfUp dp a)"
| "bn_toFixed dp x = x"

abbreviation ZERO :: bignumber where
  "ZERO \<equiv> Fin 0"

section \<open>Event records and market documents\<close>

text \<open>
  The fields that the modelled functions read. The logs carry on-chain integers as
  hexadecimal strings, which \<open>new BigNumber\<close> parses; they are modelled as \<open>int\<close>.
  Outcome identifiers stay strings (\<open>0x00\<close>, \<open>0x01\<close>, ...) because they are used as keys;
  where the code reads one as a number, the reading is a parameter (see \<open>toNumber\<close>
  below).
  \<open>prices\<close> is the pair of minimum and maximum price; reading an element that is missing
  gives \<open>undefined\<close>, which \<open>new BigNumber\<close> turns into NaN.
\<close>

record ProfitLossChangedLog =
  market :: string
  outcome :: string
  timestamp :: int
  netPosition :: int
  avgPrice :: int
  realizedProfit :: int
  realizedCost :: int
  frozenFunds :: int

record ParsedOrderEventLog =
  market :: string
  outcome :: string
  timestamp :: int
  blockNumber :: int
  logIndex :: int
  price :: int

record MarketFinalizedLog =
  market :: string
  timestamp :: int
  winningPayoutNumerators :: "int list"

record MarketData =
  market :: string
  prices :: "int list"
  numTicks :: int
  winningPayoutNumerators :: "int list"

definition bn_of_int :: "int \<Rightarrow> bignumber" where
  "bn_of_int n = Fin (rat_of_int n)"

text \<open>\<open>new BigNumber(xs[i])\<close> for an array of integers.\<close>

definition bn_at :: "int list \<Rightarrow> nat \<Rightarrow> bignumber" where
  "bn_at xs i = (if i < length xs then bn_of_int (xs ! i) else NaN)"


section \<open>Position records\<close>

text \<open>
  The interfaces \<open>MarketTradingPosition\<close> and \<open>TradingPosition\<close> share fifteen fields;
  they are declared once and extended.
\<close>

record ProfitLossFields =
  timestamp :: int
  frozenFunds :: bignumber
  marketId :: string
  realized :: bignumber
  unrealized :: bignumber
  unrealized24Hr :: bignumber
  total :: bignumber
  unrealizedCost :: bignumber
  realizedCost :: bignumber
  totalCost :: bignumber
  realizedPercent :: bignumber
  unrealizedPercent :: bignumber
  unrealized24HrPercent :: bignumber
  totalPercent :: bignumber
  currentValue :: bignumber

record MarketTradingPosition = ProfitLossFields +
  userSharesBalances :: "(string \<times> bignumber) list"

record TradingPosition = ProfitLossFields +
  outcome :: bignumber
  netPosition :: bignumber
  rawPosition :: bignumber
  averagePrice :: bignumber

section \<open>Rollup aggregator: sumTradingPositions\<close>

text \<open>The initial accumulator of the reduce.\<close>

definition zeroPosition :: MarketTradingPosition where
  "zeroPosition =
     \<lparr> timestamp = 0, frozenFunds = ZERO, marketId = [], realized = ZERO,
       unrealized = ZERO, unrealized24Hr = ZERO, total = ZERO, unrealizedCost = ZERO,
       realizedCost = ZERO, totalCost = ZERO, realizedPercent = ZERO,
       unrealizedPercent = ZERO, unrealized24HrPercent = ZERO, totalPercent = ZERO,
       currentValue = ZERO, userSharesBalances = [] \<rparr>"

text \<open>The callback of the reduce.\<close>

definition sumStep ::
  "MarketTradingPosition \<Rightarrow> MarketTradingPosition \<Rightarrow> MarketTradingPosition" where
  "sumStep resultPosition tradingPosition =
     \<lparr> timestamp = timestamp tradingPosition,
       frozenFunds = bn_plus (frozenFunds resultPosition) (frozenFunds tradingPosition),
       marketId = marketId tradingPosition,
       realized = bn_plus (realized resultPosition) (realized tradingPosition),
       unrealized = bn_plus (unrealized resultPosition) (unrealized tradingPosition),
       unrealized24Hr =
         bn_plus (unrealized24Hr resultPosition) (unrealized24Hr tradingPosition),
       total = ZERO,
       unrealizedCost =
         bn_plus (unrealizedCost resultPosition) (unrealizedCost tradingPosition),
       realizedCost = bn_plus (realizedCost resultPosition) (realizedCost tradingPosition),
       totalCost = ZERO,
       realizedPercent = ZERO,
       unrealizedPercent = ZERO,
       unrealized24HrPercent = ZERO,
       totalPercent = ZERO,
       currentValue = bn_plus (currentValue resultPosition) (currentValue tradingPosition),
       userSharesBalances = [] \<rparr>"

definition sumTradingPositions :: "MarketTradingPosition list \<Rightarrow> MarketTradingPosition" where
  "sumTradingPositions tradingPositions =
     (let summedTrade = foldl sumStep zeroPosition tradingPositions;
          frozenFunds' = frozenFunds summedTrade;
          realized' = realized summedTrade;
          unrealized' = unrealized summedTrade;
          unrealized24Hr' = unrealized24Hr summedTrade;
          realizedCost' = realizedCost summedTrade;
          unrealizedCost' = unrealizedCost summedTrade;
          total' = bn_plus realized' unrealized';
          totalCost' = bn_abs (bn_plus realizedCost' unrealizedCost')
      in summedTrade
         \<lparr> realized := realized',
           frozenFunds := frozenFunds',
           total := total',
           totalCost := totalCost',
           unrealized := unrealized',
           unrealized24Hr := unrealized24Hr',
           realizedPercent :=
             (if bn_isZero realizedCost' then ZERO
              else bn_toFixed 4 (bn_div realized' realizedCost')),
           unrealizedPercent :=
             (if bn_isZero unrealizedCost' then ZERO
              else bn_toFixed 4 (bn_div unrealized' unrealizedCost')),
           unrealized24HrPercent :=
             (if bn_isZero unrealizedCost' then ZERO
              else bn_toFixed 4 (bn_div unrealized24Hr' unrealizedCost')),
           totalPercent :=
             (if bn_isZero totalCost' then ZERO
              else bn_toFixed 4 (bn_div total' totalCost')) \<rparr>)"

text \<open>The additive fold of one field over a list of positions.\<close>

definition sumField ::
  "(MarketTradingPosition \<Rightarrow> bignumber) \<Rightarrow> MarketTradingPosition list \<Rightarrow> bignumber" where
  "sumField field ps = foldl bn_plus ZERO (map field ps)"

text \<open>Replacing the four percentage fields of a position.\<close>

definition withPercents ::
  "bignumber \<Rightarrow> bignumber \<Rightarrow> bignumber \<Rightarrow> bignumber \<Rightarrow> MarketTradingPosition
     \<Rightarrow> MarketTradingPosition" where
  "withPercents a b c d p =
     p\<lparr> realizedPercent := a, unrealizedPercent := b, unrealized24HrPercent := c,
        totalPercent := d \<rparr>"

section \<open>Errors\<close>

text \<open>
  \<open>throw new Error(message)\<close>, and the TypeError that JavaScript raises when a
  property of \<open>undefined\<close> is read.
\<close>

datatype error = Error string | TypeError

section \<open>Time bucketer: bucketRangeByInterval\<close>

text \<open>
  Timestamps and intervals are JavaScript numbers holding integers (seconds); they are
  modelled as \<open>int\<close>. \<open>Math.ceil(a / b)\<close> is the ceiling of the exact quotient.
\<close>

definition DEFAULT_NUMBER_OF_BUCKETS :: int where
  "DEFAULT_NUMBER_OF_BUCKETS = 30"

definition math_ceil_div :: "int \<Rightarrow> int \<Rightarrow> int" where
  "math_ceil_div a b = \<lceil>rat_of_int a / rat_of_int b\<rceil>"

text \<open>
  The \<open>for\<close> loop. Nothing in the loop itself bounds the number of rounds (an interval
  of zero or less never reaches \<open>endTime\<close>), so not returning is the value \<open>None\<close>.
\<close>

partial_function (option) bucketLoop ::
  "int \<Rightarrow> int \<Rightarrow> int \<Rightarrow> int list \<Rightarrow> int list option" where
  "bucketLoop bucketEndTime endTime interval buckets =
     (if bucketEndTime < endTime
      then bucketLoop (bucketEndTime + interval) endTime interval (buckets @ [bucketEndTime])
      else Some buckets)"

definition bucketRangeByInterval ::
  "int \<Rightarrow> int \<Rightarrow> int option \<Rightarrow> (error + int list) option" where
  "bucketRangeByInterval startTime endTime periodInterval =
     (if startTime < 0
      then Some (Inl (Error ''startTime must be a valid unix timestamp, greater than 0''))
      else if endTime < 0
      then Some (Inl (Error ''endTime must be a valid unix timestamp, greater than 0''))
      else if endTime < startTime
      then Some (Inl (Error ''endTime must be greater than or equal startTime''))
      else if (case periodInterval of None \<Rightarrow> False | Some p \<Rightarrow> p \<le> 0)
      then Some (Inl (Error ''periodInterval must be positive integer (seconds)''))
      else
        (let interval =
           (case periodInterval of
              None \<Rightarrow> math_ceil_div (endTime - startTime) DEFAULT_NUMBER_OF_BUCKETS
            | Some p \<Rightarrow> p)
         in map_option (\<lambda>buckets. Inr (buckets @ [endTime]))
              (bucketLoop startTime endTime interval [])))"

section \<open>Position calculator: getTradingPositionFromProfitLossFrame\<close>

text \<open>
  \<open>numTicksToTickSize\<close>, \<open>convertOnChainAmountToDisplayAmount\<close> and
  \<open>convertOnChainPriceToDisplayPrice\<close> are imported by Users.ts from the package index
  and are defined outside the file verified here. \<open>toNumber\<close> stands for
  \<open>new BigNumber(s).toNumber()\<close>, the reading of a string as a number by the
  bignumber.js library, which the code applies to outcome identifiers. The calculator
  takes the four functions as a parameter, and what is proved about it holds for every
  implementation of them.
\<close>

record Conversions =
  numTicksToTickSize :: "bignumber \<Rightarrow> bignumber \<Rightarrow> bignumber \<Rightarrow> bignumber"
  convertOnChainAmountToDisplayAmount :: "bignumber \<Rightarrow> bignumber \<Rightarrow> bignumber"
  convertOnChainPriceToDisplayPrice :: "bignumber \<Rightarrow> bignumber \<Rightarrow> bignumber \<Rightarrow> bignumber"
  toNumber :: "string \<Rightarrow> bignumber"

text \<open>The JavaScript number \<open>10 ** 18\<close>.\<close>

definition TEN_POW_18 :: bignumber where
  "TEN_POW_18 = Fin (10 ^ 18)"

text \<open>
  \<open>shareTokenBalancesByMarketAndOutcome\<close> is \<open>null\<close> or a dictionary by market and
  outcome of balance records, of which only \<open>balance\<close> is read.
\<close>

type_synonym shareTokenBalances = "string \<rightharpoonup> (string \<rightharpoonup> int)"

definition lookupRawPosition ::
  "shareTokenBalances option \<Rightarrow> string \<Rightarrow> string \<Rightarrow> bignumber" where
  "lookupRawPosition shareTokenBalancesByMarketAndOutcome marketKey outcomeKey =
     (case shareTokenBalancesByMarketAndOutcome of
        None \<Rightarrow> ZERO
      | Some byMarket \<Rightarrow>
          (case byMarket marketKey of
             None \<Rightarrow> ZERO
           | Some byOutcome \<Rightarrow>
               (case byOutcome outcomeKey of
                  None \<Rightarrow> ZERO
                | Some balance \<Rightarrow> bn_of_int balance)))"

definition getTradingPositionFromProfitLossFrame ::
  "Conversions \<Rightarrow> ProfitLossChangedLog \<Rightarrow> MarketData \<Rightarrow> bignumber \<Rightarrow> bignumber option
     \<Rightarrow> int \<Rightarrow> shareTokenBalances option \<Rightarrow> bool \<Rightarrow> TradingPosition" where
  "getTradingPositionFromProfitLossFrame utils profitLossFrame marketDoc onChainOutcomeValue
       onChain24HrOutcomeValue timestamp' shareTokenBalancesByMarketAndOutcome finalized =
     (let minPrice = bn_at (MarketData.prices marketDoc) 0;
          maxPrice = bn_at (MarketData.prices marketDoc) 1;
          numTicks' = bn_of_int (MarketData.numTicks marketDoc);
          tickSize = numTicksToTickSize utils numTicks' minPrice maxPrice;
          onChainFrozenFunds =
            bn_div (bn_of_int (ProfitLossChangedLog.frozenFunds profitLossFrame)) TEN_POW_18;
          onChainNetPosition = bn_of_int (ProfitLossChangedLog.netPosition profitLossFrame);
          onChainAvgPrice =
            bn_div (bn_of_int (ProfitLossChangedLog.avgPrice profitLossFrame)) TEN_POW_18;
          onChainRealizedProfit =
            bn_div (bn_of_int (ProfitLossChangedLog.realizedProfit profitLossFrame)) TEN_POW_18;
          onChainRealizedCost =
            bn_div (bn_of_int (ProfitLossChangedLog.realizedCost profitLossFrame)) TEN_POW_18;
          onChainRawPosition =
            lookupRawPosition shareTokenBalancesByMarketAndOutcome
              (MarketData.market marketDoc) (ProfitLossChangedLog.outcome profitLossFrame);
          onChainAvgCost =
            (if bn_isNegative onChainNetPosition then bn_minus numTicks' onChainAvgPrice
             else onChainAvgPrice);
          onChainUnrealizedCost = bn_times (bn_abs onChainNetPosition) onChainAvgCost;
          frozenFunds0 = bn_div onChainFrozenFunds TEN_POW_18;
          netPosition0 = convertOnChainAmountToDisplayAmount utils onChainNetPosition tickSize;
          rawPosition0 = convertOnChainAmountToDisplayAmount utils onChainRawPosition tickSize;
          realizedProfit0 = bn_div onChainRealizedProfit TEN_POW_18;
          avgPrice0 = convertOnChainPriceToDisplayPrice utils onChainAvgPrice minPrice tickSize;
          realizedCost0 = bn_div onChainRealizedCost TEN_POW_18;
          unrealizedCost0 = bn_div onChainUnrealizedCost TEN_POW_18;
          lastTradePrice =
            convertOnChainPriceToDisplayPrice utils onChainOutcomeValue minPrice tickSize;
          last24HrTradePrice =
            (case onChain24HrOutcomeValue of
               None \<Rightarrow> None
             | Some v \<Rightarrow>
                 Some (convertOnChainPriceToDisplayPrice utils onChainOutcomeValue minPrice
                         tickSize));
          unrealized0 =
            bn_times (bn_abs netPosition0)
              (if bn_isNegative onChainNetPosition then bn_minus avgPrice0 lastTradePrice
               else bn_minus lastTradePrice avgPrice0);
          unrealized24Hr0 =
            (case last24HrTradePrice of
               None \<Rightarrow> ZERO
             | Some last24 \<Rightarrow>
                 bn_times (bn_abs netPosition0)
                   (if bn_isNegative onChainNetPosition then bn_minus avgPrice0 last24
                    else bn_minus last24 avgPrice0));
          shortPrice = bn_minus (bn_div maxPrice TEN_POW_18) lastTradePrice;
          currentValue' =
            bn_times (bn_abs netPosition0)
              (if bn_isNegative onChainNetPosition then shortPrice else lastTradePrice);
          totalCost' = bn_plus unrealizedCost0 realizedCost0;
          realizedCost1 = (if finalized then bn_plus unrealizedCost0 realizedCost0 else realizedCost0);
          realizedProfit1 =
            (if finalized then bn_plus realizedProfit0 unrealized0 else realizedProfit0);
          unrealized1 = (if finalized then ZERO else unrealized0);
          unrealized24Hr1 = (if finalized then ZERO else unrealized24Hr0);
          unrealizedCost1 = (if finalized then ZERO else unrealizedCost0);
          avgPrice1 =
            (if finalized then (if bn_eq onChainNetPosition ZERO then ZERO else avgPrice0)
             else avgPrice0);
          unrealized24HrPercent' =
            (if bn_isZero unrealizedCost1 then ZERO else bn_div unrealized24Hr1 unrealizedCost1);
          unrealizedPercent' =
            (if bn_isZero unrealizedCost1 then ZERO else bn_div unrealized1 unrealizedCost1);
          totalPercent' =
            bn_div (bn_plus realizedProfit1 unrealized1) (bn_plus realizedCost1 unrealizedCost1);
          realizedPercent' =
            (if bn_isZero realizedCost1 then ZERO
             else bn_div realizedProfit1 (bn_abs realizedCost1))
      in \<lparr> timestamp = timestamp',
           frozenFunds = frozenFunds0,
           marketId = ProfitLossChangedLog.market profitLossFrame,
           realized = realizedProfit1,
           unrealized = unrealized1,
           unrealized24Hr = unrealized24Hr1,
           total = bn_plus realizedProfit1 unrealized1,
           unrealizedCost = unrealizedCost1,
           realizedCost = realizedCost1,
           totalCost = totalCost',
           realizedPercent = bn_toFixed 4 realizedPercent',
           unrealizedPercent = bn_toFixed 4 unrealizedPercent',
           unrealized24HrPercent = bn_toFixed 4 unrealized24HrPercent',
           totalPercent = bn_toFixed 4 totalPercent',
           currentValue = currentValue',
           outcome = toNumber utils (ProfitLossChangedLog.outcome profitLossFrame),
           netPosition = netPosition0,
           rawPosition = rawPosition0,
           averagePrice = avgPrice1 \<rparr>)"

text \<open>
  One implementation of the parameter, for running the calculator on concrete
  records: the tick size is the price range over the number of ticks, an amount is
  scaled by the tick size, a price is scaled by the tick size and shifted by the minimum
  price, both brought down by eighteen decimal places; of the strings only the three
  outcome identifiers of the sample market are read.
\<close>

definition sampleConversions :: Conversions where
  "sampleConversions =
     \<lparr> numTicksToTickSize = (\<lambda>numTicks' minPrice maxPrice.
           bn_div (bn_minus maxPrice minPrice) numTicks'),
       convertOnChainAmountToDisplayAmount = (\<lambda>onChainAmount tickSize.
           bn_div (bn_times onChainAmount tickSize) TEN_POW_18),
       convertOnChainPriceToDisplayPrice = (\<lambda>onChainPrice minPrice tickSize.
           bn_div (bn_plus (bn_times onChainPrice tickSize) minPrice) TEN_POW_18),
       toNumber = (\<lambda>s. case map_of [(''0x00'', Fin 0), (''0x01'', Fin 1), (''0x02'', Fin 2)] s of
           None \<Rightarrow> NaN | Some n \<Rightarrow> n) \<rparr>"

definition sampleMarket :: MarketData where
  "sampleMarket =
     \<lparr> MarketData.market = ''0xm1'', prices = [0, 10 ^ 18], numTicks = 100,
       MarketData.winningPayoutNumerators = [] \<rparr>"

definition sampleFrame :: ProfitLossChangedLog where
  "sampleFrame =
     \<lparr> ProfitLossChangedLog.market = ''0xm1'', ProfitLossChangedLog.outcome = ''0x01'',
       ProfitLossChangedLog.timestamp = 10, ProfitLossChangedLog.netPosition = 5,
       avgPrice = 40 * 10 ^ 18, realizedProfit = 0, ProfitLossChangedLog.realizedCost = 0,
       ProfitLossChangedLog.frozenFunds = 0 \<rparr>"

section \<open>Escrow estimator: addEscrowedAmountsDecrementShares\<close>

text \<open>Modelled from the spec: the constant \<open>QUINTILLION\<close>, which Users.ts imports from the
  package's utils, outside the file verified here. The spec calls it "a fixed large
  power-of-ten on-chain unit (18 decimals)".\<close>

definition QUINTILLION :: bignumber where
  "QUINTILLION = Fin (10 ^ 18)"

text \<open>
  An open order: \<open>amount\<close> and \<open>price\<close> are decimal strings; the estimator writes
  \<open>tokensEscrowed\<close> and \<open>sharesEscrowed\<close>.
\<close>

record Order =
  amount :: bignumber
  price :: bignumber
  tokensEscrowed :: bignumber
  sharesEscrowed :: bignumber

text \<open>
  \<open>userSharesBalances\<close> is an object from outcome to decimal string: a list of pairs in
  the order of \<open>Object.keys\<close>; an object has each key once, and only the outcomes with
  a balance row have a key (\<open>getUserTradingPositions\<close> creates the keys \<open>0\<close>, \<open>1\<close>, ...
  from the rows' outcomes). The estimator changes it in
  place, so the model returns it next to the order.
\<close>

type_synonym sharesBalances = "(string \<times> bignumber) list"

text \<open>
  The order of \<open>Object.keys\<close>: first the keys that are array indices (\<open>0\<close>, or a decimal
  numeral without leading zero, below 2^32 - 1) in ascending numeric order, then the
  other keys in the order of their creation.
\<close>

definition decimalDigit :: "char \<Rightarrow> nat option" where
  "decimalDigit c =
     map_of [(CHR ''0'', 0), (CHR ''1'', 1), (CHR ''2'', 2), (CHR ''3'', 3), (CHR ''4'', 4),
             (CHR ''5'', 5), (CHR ''6'', 6), (CHR ''7'', 7), (CHR ''8'', 8), (CHR ''9'', 9)] c"

fun decimalValue :: "nat \<Rightarrow> string \<Rightarrow> nat option" where
  "decimalValue acc [] = Some acc"
| "decimalValue acc (c # cs) =
     (case decimalDigit c of None \<Rightarrow> None | Some d \<Rightarrow> decimalValue (acc * 10 + d) cs)"

definition arrayIndex :: "string \<Rightarrow> nat option" where
  "arrayIndex k =
     (if k = [] then None
      else if hd k = CHR ''0'' \<and> k \<noteq> ''0'' then None
      else (case decimalValue 0 k of
              None \<Rightarrow> None
            | Some n \<Rightarrow> (if n < 2 ^ 32 - 1 then Some n else None)))"

text \<open>A new array-index key goes before the first key that is not a smaller array index.\<close>

fun insertIndexKey :: "nat \<Rightarrow> string \<Rightarrow> bignumber \<Rightarrow> sharesBalances \<Rightarrow> sharesBalances" where
  "insertIndexKey n k v [] = [(k, v)]"
| "insertIndexKey n k v (kv # kvs) =
     (case arrayIndex (fst kv) of
        None \<Rightarrow> (k, v) # kv # kvs
      | Some m \<Rightarrow> (if m < n then kv # insertIndexKey n k v kvs else (k, v) # kv # kvs))"

text \<open>
  \<open>obj[k] = v\<close>: replaces the value of an existing key where it stands, else creates
  the key at its place in the order of \<open>Object.keys\<close>.
\<close>

definition setKey :: "string \<Rightarrow> bignumber \<Rightarrow> sharesBalances \<Rightarrow> sharesBalances" where
  "setKey k v kvs =
     (if map_of kvs k \<noteq> None
      then map (\<lambda>kv. if fst kv = k then (k, v) else kv) kvs
      else (case arrayIndex k of
              None \<Rightarrow> kvs @ [(k, v)]
            | Some n \<Rightarrow> insertIndexKey n k v kvs))"

definition addEscrowedAmountsDecrementShares ::
  "Order \<Rightarrow> string \<Rightarrow> int \<Rightarrow> MarketData \<Rightarrow> sharesBalances \<Rightarrow> Order \<times> sharesBalances" where
  "addEscrowedAmountsDecrementShares order outcome' orderType market' userSharesBalances' =
     (let maxPrice = bn_at (MarketData.prices market') 1;
          minPrice = bn_at (MarketData.prices market') 0;
          displayMaxPrice = bn_div maxPrice QUINTILLION;
          displayMinPrice = bn_div minPrice QUINTILLION
      in if orderType = 0
         then
           (let userSharesBalancesRemoveOutcome =
                  map snd (filter (\<lambda>kv. outcome' \<noteq> fst kv) userSharesBalances');
                minOutcomeShareAmount =
                  (case userSharesBalancesRemoveOutcome of
                     [] \<Rightarrow> ZERO
                   | b # bs \<Rightarrow> bn_min b bs);
                sharesUsed = bn_min2 (amount order) minOutcomeShareAmount;
                amt = bn_minus (amount order) sharesUsed;
                cost = bn_times amt (bn_minus (price order) displayMinPrice)
            in (order\<lparr> tokensEscrowed := cost, sharesEscrowed := sharesUsed \<rparr>,
                map (\<lambda>kv. if outcome' \<noteq> fst kv then (fst kv, bn_minus (snd kv) sharesUsed)
                          else kv)
                  userSharesBalances'))
         else
           (let sharesBN =
                  (case map_of userSharesBalances' outcome' of None \<Rightarrow> ZERO | Some b \<Rightarrow> b);
                sharesUsed = bn_min2 (amount order) sharesBN;
                cost = bn_times (bn_minus (amount order) sharesUsed)
                         (bn_minus displayMaxPrice (price order))
            in (order\<lparr> tokensEscrowed := cost, sharesEscrowed := sharesUsed \<rparr>,
                setKey outcome'
                  (if bn_gt sharesBN ZERO then bn_minus sharesBN sharesUsed else sharesBN)
                  userSharesBalances')))"

text \<open>
  The orders of one market are processed one after the other on the same balances
  (the nested \<open>forEach\<close> of \<open>getUserOpenOrders\<close>); each request is an order with its
  outcome and order type. The result is the balances after the last order.
\<close>

fun decrementSharesForOrders ::
  "MarketData \<Rightarrow> sharesBalances \<Rightarrow> (Order \<times> string \<times> int) list \<Rightarrow> sharesBalances" where
  "decrementSharesForOrders market' balances [] = balances"
| "decrementSharesForOrders market' balances ((order, outcome', orderType) # rest) =
     decrementSharesForOrders market'
       (snd (addEscrowedAmountsDecrementShares order outcome' orderType market' balances)) rest"

text \<open>A balance that is a number and not below zero.\<close>

fun nonNegative :: "bignumber \<Rightarrow> bool" where
  "nonNegative (Fin r) = (0 \<le> r)"
| "nonNegative x = False"

definition allNonNegative :: "sharesBalances \<Rightarrow> bool" where
  "allNonNegative balances = list_all (\<lambda>kv. nonNegative (snd kv)) balances"

text \<open>Balances and their complement for an outcome, given as rationals.\<close>

definition finBalances :: "(string \<times> rat) list \<Rightarrow> sharesBalances" where
  "finBalances rs = map (\<lambda>kv. (fst kv, Fin (snd kv))) rs"

definition otherBalances :: "string \<Rightarrow> (string \<times> rat) list \<Rightarrow> rat list" where
  "otherBalances outcome' rs = map snd (filter (\<lambda>kv. outcome' \<noteq> fst kv) rs)"

section \<open>Full-loss detector: getFullMarketPositionLoss\<close>

text \<open>
  The function reads the MarketFinalized logs of the markets of the given profit/loss
  records, and the market documents of those logs' markets; the model takes the results
  of the two reads as arguments. \<open>_.keyBy\<close> keeps the last document of each market. A
  document without winning payout numerators is one with the empty list, over which
  \<open>_.reduce\<close> returns its initial value as it does over \<open>undefined\<close>.
\<close>

definition keyByMarket :: "MarketData list \<Rightarrow> (string \<rightharpoonup> MarketData)" where
  "keyByMarket marketsData = map_of (rev (map (\<lambda>d. (MarketData.market d, d)) marketsData))"

text \<open>The decimal digits of an array index, as the template string prints it.\<close>

definition digitChar :: "nat \<Rightarrow> char" where
  "digitChar d = ''0123456789'' ! d"

fun indexString :: "nat \<Rightarrow> string" where
  "indexString n =
     (if n < 10 then [digitChar n] else indexString (n div 10) @ [digitChar (n mod 10)])"

text \<open>\<open>new BigNumber(outcomeBalance[`0x0${index}`]?.balance || 0)\<close>\<close>

definition balanceAtIndex :: "(string \<rightharpoonup> int) \<Rightarrow> nat \<Rightarrow> int" where
  "balanceAtIndex outcomeBalance index =
     (case outcomeBalance (''0x0'' @ indexString index) of None \<Rightarrow> 0 | Some balance \<Rightarrow> balance)"

text \<open>
  The inner reduce over the payout numerators, from a given index on. Its callback
  reads a property of \<open>outcomeBalance\<close>, which raises a TypeError when the account has
  no balances in the market.
\<close>

fun totalPositionValue ::
  "(string \<rightharpoonup> int) option \<Rightarrow> nat \<Rightarrow> int list \<Rightarrow> bignumber \<Rightarrow> error + bignumber" where
  "totalPositionValue outcomeBalance index [] acc' = Inr acc'"
| "totalPositionValue outcomeBalance index (outcome' # payoutNumerators) acc' =
     (case outcomeBalance of
        None \<Rightarrow> Inl TypeError
      | Some balances \<Rightarrow>
          totalPositionValue outcomeBalance (Suc index) payoutNumerators
            (bn_plus acc'
               (bn_times (bn_of_int (balanceAtIndex balances index)) (bn_of_int outcome'))))"

text \<open>The callback of the outer reduce; an exception ends the whole reduce.\<close>

definition fullLossStep ::
  "(string \<rightharpoonup> MarketData) \<Rightarrow> shareTokenBalances \<Rightarrow> error + string list \<Rightarrow> string
     \<Rightarrow> error + string list" where
  "fullLossStep markets shareTokenBalancesByMarketAndOutcome acc marketId' =
     (case acc of
        Inl e \<Rightarrow> Inl e
      | Inr result \<Rightarrow>
          (case markets marketId' of
             None \<Rightarrow> Inl TypeError
           | Some marketDoc \<Rightarrow>
               (case totalPositionValue (shareTokenBalancesByMarketAndOutcome marketId') 0
                       (MarketData.winningPayoutNumerators marketDoc) ZERO of
                  Inl e \<Rightarrow> Inl e
                | Inr total' \<Rightarrow>
                    Inr (if bn_gt total' ZERO then result else result @ [marketId']))))"

definition getFullMarketPositionLoss ::
  "MarketFinalizedLog list \<Rightarrow> MarketData list \<Rightarrow> shareTokenBalances \<Rightarrow> error + string list" where
  "getFullMarketPositionLoss marketFinalizedResults marketsData
       shareTokenBalancesByMarketAndOutcome =
     (let finalizedMarketIds = map MarketFinalizedLog.market marketFinalizedResults;
          markets = keyByMarket marketsData
      in foldl (fullLossStep markets shareTokenBalancesByMarketAndOutcome) (Inr [])
           finalizedMarketIds)"

text \<open>
  The resolved value of a position: the sum over the outcomes of the balance times the
  winning payout numerator.
\<close>

definition resolvedValue :: "(string \<rightharpoonup> int) \<Rightarrow> int list \<Rightarrow> int" where
  "resolvedValue outcomeBalance payoutNumerators =
     (\<Sum>i < length payoutNumerators. balanceAtIndex outcomeBalance i * payoutNumerators ! i)"

section \<open>Valuation in the bucketed series: getProfitLoss\<close>














definition sampleFinalized :: MarketFinalizedLog where
  "sampleFinalized =
     \<lparr> MarketFinalizedLog.market = ''0xm1'', MarketFinalizedLog.timestamp = 100,
       MarketFinalizedLog.winningPayoutNumerators = [0, 100] \<rparr>"

section \<open>Properties of the rollup\<close>

lemma foldl_sumStep_fields:
  "realized (foldl sumStep acc ps) = foldl bn_plus (realized acc) (map realized ps)"
  "unrealized (foldl sumStep acc ps) = foldl bn_plus (unrealized acc) (map unrealized ps)"
  "unrealized24Hr (foldl sumStep acc ps) =
     foldl bn_plus (unrealized24Hr acc) (map unrealized24Hr ps)"
  "realizedCost (foldl sumStep acc ps) =
     foldl bn_plus (realizedCost acc) (map realizedCost ps)"
  "unrealizedCost (foldl sumStep acc ps) =
     foldl bn_plus (unrealizedCost acc) (map unrealizedCost ps)"
  "frozenFunds (foldl sumStep acc ps) = foldl bn_plus (frozenFunds acc) (map frozenFunds ps)"
  "currentValue (foldl sumStep acc ps) =
     foldl bn_plus (currentValue acc) (map currentValue ps)"
  by (induction ps arbitrary: acc) (simp_all add: sumStep_def)

lemma sumStep_withPercents:
  "sumStep acc (withPercents a b c d p) = sumStep acc p"
  by (simp add: sumStep_def withPercents_def)

lemma foldl_sumStep_withPercents:
  "foldl sumStep acc (map (\<lambda>p. withPercents (a p) (b p) (c p) (d p) p) ps)
     = foldl sumStep acc ps"
  by (induction ps arbitrary: acc) (simp_all add: sumStep_withPercents)

text \<open>On fields that are numbers the additive fold is the sum.\<close>

lemma foldl_bn_plus_Fin:
  "foldl bn_plus (Fin a) (map (\<lambda>p. Fin (g p)) ps) = Fin (a + sum_list (map g ps))"
  by (induction ps arbitrary: a) (simp_all add: add.assoc)

lemma sumField_Fin:
  assumes "\<forall>p \<in> set ps. field p = Fin (g p)"
  shows "sumField field ps = Fin (sum_list (map g ps))"
proof -
  have same: "map field ps = map (\<lambda>p. Fin (g p)) ps"
    using assms by simp
  show ?thesis
    unfolding sumField_def same using foldl_bn_plus_Fin [of 0 g ps] by simp
qed

text \<open>
  C1. The rollup's realized, unrealized, unrealized24Hr, realizedCost and unrealizedCost
  are the additive folds of the inputs' fields; total is realized plus unrealized and
  totalCost the absolute value of realizedCost plus unrealizedCost; each percentage is
  the quotient of the summed profit by the summed cost (printed with four places), zero
  for a zero cost, and does not depend on the percentage fields of the inputs; the
  rollup of no position is the record of zeros.
\<close>

theorem sumTradingPositions_rollup:
  fixes ps :: "MarketTradingPosition list"
  defines "r \<equiv> sumTradingPositions ps"
  shows "realized r = sumField realized ps
       \<and> unrealized r = sumField unrealized ps
       \<and> unrealized24Hr r = sumField unrealized24Hr ps
       \<and> realizedCost r = sumField realizedCost ps
       \<and> unrealizedCost r = sumField unrealizedCost ps
       \<and> total r = bn_plus (realized r) (unrealized r)
       \<and> totalCost r = bn_abs (bn_plus (realizedCost r) (unrealizedCost r))
       \<and> realizedPercent r =
           (if bn_isZero (realizedCost r) then ZERO
            else bn_toFixed 4 (bn_div (realized r) (realizedCost r)))
       \<and> unrealizedPercent r =
           (if bn_isZero (unrealizedCost r) then ZERO
            else bn_toFixed 4 (bn_div (unrealized r) (unrealizedCost r)))
       \<and> unrealized24HrPercent r =
           (if bn_isZero (unrealizedCost r) then ZERO
            else bn_toFixed 4 (bn_div (unrealized24Hr r) (unrealizedCost r)))
       \<and> totalPercent r =
           (if bn_isZero (totalCost r) then ZERO
            else bn_toFixed 4 (bn_div (total r) (totalCost r)))
       \<and> sumTradingPositions (map (\<lambda>p. withPercents (a p) (b p) (c p) (d p) p) ps) = r
       \<and> sumTradingPositions [] = zeroPosition"
proof -
  have fields:
    "realized r = sumField realized ps" "unrealized r = sumField unrealized ps"
    "unrealized24Hr r = sumField unrealized24Hr ps"
    "realizedCost r = sumField realizedCost ps"
    "unrealizedCost r = sumField unrealizedCost ps"
    by (simp_all add: r_def sumTradingPositions_def Let_def sumField_def
        foldl_sumStep_fields zeroPosition_def)
  have totals:
    "total r = bn_plus (realized r) (unrealized r)"
    "totalCost r = bn_abs (bn_plus (realizedCost r) (unrealizedCost r))"
    by (simp_all add: r_def sumTradingPositions_def Let_def)
  have percents:
    "realizedPercent r =
       (if bn_isZero (realizedCost r) then ZERO
        else bn_toFixed 4 (bn_div (realized r) (realizedCost r)))"
    "unrealizedPercent r =
       (if bn_isZero (unrealizedCost r) then ZERO
        else bn_toFixed 4 (bn_div (unrealized r) (unrealizedCost r)))"
    "unrealized24HrPercent r =
       (if bn_isZero (unrealizedCost r) then ZERO
        else bn_toFixed 4 (bn_div (unrealized24Hr r) (unrealizedCost r)))"
    "totalPercent r =
       (if bn_isZero (totalCost r) then ZERO
        else bn_toFixed 4 (bn_div (total r) (totalCost r)))"
    by (simp_all add: r_def sumTradingPositions_def Let_def)
  have indep: "sumTradingPositions (map (\<lambda>p. withPercents (a p) (b p) (c p) (d p) p) ps) = r"
    by (simp add: r_def sumTradingPositions_def foldl_sumStep_withPercents)
  have empty: "sumTradingPositions [] = zeroPosition"
    by (simp add: sumTradingPositions_def zeroPosition_def Let_def)
  from fields totals percents indep empty show ?thesis by blast
qed

section \<open>Properties of the time bucketer\<close>

lemma instant_count:
  assumes "0 < i"
  shows "(s + int k * i < e) = (k < nat (math_ceil_div (e - s) i))"
proof -
  have "(k < nat (math_ceil_div (e - s) i)) = (int k < math_ceil_div (e - s) i)"
    by (simp add: zless_nat_eq_int_zless)
  also have "\<dots> = (rat_of_int (int k) < rat_of_int (e - s) / rat_of_int i)"
    by (simp add: math_ceil_div_def less_ceiling_iff)
  also have "\<dots> = (rat_of_int (int k) * rat_of_int i < rat_of_int (e - s))"
    using assms by (simp add: pos_less_divide_eq)
  also have "\<dots> = (rat_of_int (int k * i) < rat_of_int (e - s))"
    by simp
  also have "\<dots> = (int k * i < e - s)"
    by (simp only: of_int_less_iff)
  also have "\<dots> = (s + int k * i < e)"
    by linarith
  finally show ?thesis by simp
qed

text \<open>
  The loop returns, in order, the instants \<open>b + k * i\<close> below \<open>e\<close>, when \<open>n\<close> counts
  them.
\<close>

lemma bucketLoop_counted:
  "(\<And>k. (b + int k * i < e) = (k < n))
     \<Longrightarrow> bucketLoop b e i acc = Some (acc @ map (\<lambda>k. b + int k * i) [0..<n])"
proof (induction n arbitrary: b acc)
  case 0
  have "\<not> b < e" using "0" [of 0] by simp
  then show ?case by (simp add: bucketLoop.simps)
next
  case (Suc n)
  have lt: "b < e" using Suc.prems [of 0] by simp
  have shifted: "(b + i + int k * i < e) = (k < n)" for k
    using Suc.prems [of "Suc k"] by (simp add: algebra_simps)
  have "bucketLoop b e i acc = bucketLoop (b + i) e i (acc @ [b])"
    using lt by (subst bucketLoop.simps) simp
  also have "\<dots> = Some ((acc @ [b]) @ map (\<lambda>k. b + i + int k * i) [0..<n])"
    by (rule Suc.IH) (rule shifted)
  also have "map (\<lambda>k. b + i + int k * i) [0..<n] = map (\<lambda>k. b + int k * i) [Suc 0..<Suc n]"
    by (simp only: map_Suc_upt [symmetric] map_map o_def) (simp add: algebra_simps)
  also have "(acc @ [b]) @ map (\<lambda>k. b + int k * i) [Suc 0..<Suc n]
               = acc @ map (\<lambda>k. b + int k * i) [0..<Suc n]"
    by (simp add: upt_conv_Cons del: upt_Suc)
  finally show ?case .
qed

lemma bucketRange_Some:
  assumes "0 \<le> s" "s \<le> e" "0 < i"
  shows "\<exists>n. bucketRangeByInterval s e (Some i)
               = Some (Inr (map (\<lambda>k. s + int k * i) [0..<n] @ [e]))
           \<and> (\<forall>k. (s + int k * i < e) = (k < n))"
proof -
  let ?n = "nat (math_ceil_div (e - s) i)"
  have count: "(s + int k * i < e) = (k < ?n)" for k
    using assms(3) by (rule instant_count)
  have "bucketLoop s e i [] = Some ([] @ map (\<lambda>k. s + int k * i) [0..<?n])"
    by (rule bucketLoop_counted) (rule count)
  then have "bucketRangeByInterval s e (Some i)
               = Some (Inr (map (\<lambda>k. s + int k * i) [0..<?n] @ [e]))"
    using assms by (simp add: bucketRangeByInterval_def)
  with count show ?thesis by blast
qed

lemma bucketRange_None:
  assumes "0 \<le> s" "s \<le> e"
  defines "d \<equiv> math_ceil_div (e - s) DEFAULT_NUMBER_OF_BUCKETS"
  shows "\<exists>n. bucketRangeByInterval s e None
               = Some (Inr (map (\<lambda>k. s + int k * d) [0..<n] @ [e]))
           \<and> (\<forall>k. (s + int k * d < e) = (k < n))"
proof (cases "s = e")
  case True
  have "bucketRangeByInterval s e None = Some (Inr (map (\<lambda>k. s + int k * d) [0..<0] @ [e]))"
    using assms(1) True by (simp add: bucketRangeByInterval_def bucketLoop.simps)
  moreover have "\<forall>k. (s + int k * d < e) = (k < 0)"
    using True by (simp add: d_def math_ceil_div_def)
  ultimately show ?thesis by blast
next
  case False
  then have "0 < rat_of_int (e - s) / rat_of_int DEFAULT_NUMBER_OF_BUCKETS"
    using assms(2) by (simp add: DEFAULT_NUMBER_OF_BUCKETS_def)
  then have pos: "0 < d"
    by (simp add: d_def math_ceil_div_def)
  have same: "bucketRangeByInterval s e None = bucketRangeByInterval s e (Some d)"
    using pos by (simp add: bucketRangeByInterval_def d_def)
  show ?thesis
    unfolding same using assms(1,2) pos by (rule bucketRange_Some)
qed

text \<open>
  C7. For a valid range and a positive interval the bucketer returns the instants
  start, start + interval, start + 2 * interval, ... that are below end, in this order,
  then end; so a range of one instant gives that instant alone, and the range 0 to 100
  by steps of 25 gives 0, 25, 50, 75, 100. Without an interval the step is the ceiling
  of (end - start) / 30.
\<close>

theorem bucketRangeByInterval_instants:
  assumes "0 \<le> s" and "s \<le> e" and "0 < i"
  shows "(\<exists>n. bucketRangeByInterval s e (Some i)
                = Some (Inr (map (\<lambda>k. s + int k * i) [0..<n] @ [e]))
            \<and> (\<forall>k. (s + int k * i < e) = (k < n)))
       \<and> bucketRangeByInterval s s (Some i) = Some (Inr [s])
       \<and> bucketRangeByInterval 0 100 (Some 25) = Some (Inr [0, 25, 50, 75, 100])
       \<and> (\<exists>n. bucketRangeByInterval s e None
                = Some (Inr (map (\<lambda>k. s + int k * math_ceil_div (e - s) 30) [0..<n] @ [e]))
            \<and> (\<forall>k. (s + int k * math_ceil_div (e - s) 30 < e) = (k < n)))"
proof -
  have single: "bucketRangeByInterval s s (Some i) = Some (Inr [s])"
    using assms(1,3) by (simp add: bucketRangeByInterval_def bucketLoop.simps)
  have example: "bucketRangeByInterval 0 100 (Some 25) = Some (Inr [0, 25, 50, 75, 100])"
    by (simp add: bucketRangeByInterval_def bucketLoop.simps)
  from bucketRange_Some [OF assms] bucketRange_None [OF assms(1,2)] single example
  show ?thesis by (simp add: DEFAULT_NUMBER_OF_BUCKETS_def)
qed

theorem bucketRangeByInterval_instants_witness:
  "(0::int) \<le> 3 \<and> (3::int) \<le> 10 \<and> (0::int) < 4
     \<and> bucketRangeByInterval 3 3 (Some 4) = Some (Inr [3])
     \<and> bucketRangeByInterval 3 10 (Some 4) = Some (Inr [3, 7, 10])"
  using bucketRangeByInterval_instants [of 3 10 4]
  by (simp add: bucketRangeByInterval_def bucketLoop.simps)

section \<open>Properties of the position calculator\<close>

text \<open>
  C2. With the finalized flag set, the calculator returns unrealized, unrealized24Hr and
  unrealizedCost zero; realized is the realized profit plus the unrealized profit that
  the same inputs give without the flag, realizedCost the unrealized plus the realized
  cost that they give without it; averagePrice is zero when the record's net position is
  zero and is otherwise the average price computed without the flag.
\<close>

theorem finalized_collapse:
  fixes utils :: Conversions and frame marketDoc v v24 ts balances
  defines "p \<equiv> getTradingPositionFromProfitLossFrame utils frame marketDoc v v24 ts balances True"
      and "q \<equiv> getTradingPositionFromProfitLossFrame utils frame marketDoc v v24 ts balances False"
  shows "unrealized p = ZERO
       \<and> unrealized24Hr p = ZERO
       \<and> unrealizedCost p = ZERO
       \<and> realized p = bn_plus (realized q) (unrealized q)
       \<and> realizedCost p = bn_plus (unrealizedCost q) (realizedCost q)
       \<and> averagePrice p =
           (if ProfitLossChangedLog.netPosition frame = 0 then ZERO else averagePrice q)"
  by (simp add: p_def q_def getTradingPositionFromProfitLossFrame_def Let_def bn_eq_def
      bn_of_int_def)

text \<open>
  C4. When a 24-hour-prior valuation price is supplied, whatever it is, the returned
  unrealized24Hr is the returned unrealized, for a long and for a short position, with
  and without the finalized flag.
\<close>

theorem unrealized24Hr_is_unrealized:
  fixes utils :: Conversions and frame marketDoc v v24 ts balances finalized
  defines "p \<equiv> getTradingPositionFromProfitLossFrame utils frame marketDoc v (Some v24) ts
                  balances finalized"
  shows "unrealized24Hr p = unrealized p"
  by (simp add: p_def getTradingPositionFromProfitLossFrame_def Let_def)

lemma bn_minus_swap: "bn_minus a b = bn_negated (bn_minus b a)"
  by (cases a; cases b) (simp_all add: bn_minus_def)

lemma bn_times_negated: "bn_times x (bn_negated y) = bn_negated (bn_times x y)"
  by (cases x; cases y) (auto simp: bn_signedInf_def)

lemma bn_abs_negated: "bn_abs (bn_negated x) = bn_abs x"
  by (cases x) simp_all

lemma bn_negated_of_int: "bn_of_int (- n) = bn_negated (bn_of_int n)"
  by (simp add: bn_of_int_def)

lemma bn_isNegative_of_int: "bn_isNegative (bn_of_int n) = (n < 0)"
  by (simp add: bn_of_int_def)

lemma bn_isNegative_negated_of_int: "bn_isNegative (bn_negated (bn_of_int n)) = (0 < n)"
  by (simp add: bn_of_int_def)

lemma bn_negated_eq_self: "bn_negated x = x \<Longrightarrow> x = ZERO \<or> x = NaN"
  by (cases x) simp_all

lemma bn_times_zero_negated: "bn_negated (bn_times ZERO y) = bn_times ZERO y"
  by (cases y) simp_all

text \<open>
  C6. Two records that differ only in the sign of the net position, valued without the
  finalized flag at the same price, have opposite unrealized profits, provided that the
  amount conversion, which the calculator applies to the net position, maps opposite
  amounts to opposite amounts.
\<close>

theorem unrealized_sign_symmetry:
  fixes utils :: Conversions
  assumes odd: "\<And>x t. convertOnChainAmountToDisplayAmount utils (bn_negated x) t
                        = bn_negated (convertOnChainAmountToDisplayAmount utils x t)"
  shows "unrealized (getTradingPositionFromProfitLossFrame utils
            (frame\<lparr>ProfitLossChangedLog.netPosition := - n\<rparr>) marketDoc v v24 ts balances False)
       = bn_negated (unrealized (getTradingPositionFromProfitLossFrame utils
            (frame\<lparr>ProfitLossChangedLog.netPosition := n\<rparr>) marketDoc v v24 ts balances False))"
proof -
  define t where "t = numTicksToTickSize utils (bn_of_int (MarketData.numTicks marketDoc))
     (bn_at (MarketData.prices marketDoc) 0) (bn_at (MarketData.prices marketDoc) 1)"
  define a where "a = convertOnChainAmountToDisplayAmount utils (bn_of_int n) t"
  define avg where "avg = convertOnChainPriceToDisplayPrice utils
     (bn_div (bn_of_int (ProfitLossChangedLog.avgPrice frame)) TEN_POW_18)
     (bn_at (MarketData.prices marketDoc) 0) t"
  define lst where "lst = convertOnChainPriceToDisplayPrice utils v
     (bn_at (MarketData.prices marketDoc) 0) t"
  have neg: "convertOnChainAmountToDisplayAmount utils (bn_of_int (- n)) t = bn_negated a"
    by (simp add: a_def bn_negated_of_int odd)
  have lhs: "unrealized (getTradingPositionFromProfitLossFrame utils
            (frame\<lparr>ProfitLossChangedLog.netPosition := - n\<rparr>) marketDoc v v24 ts balances False)
       = bn_times (bn_abs a) (if 0 < n then bn_minus avg lst else bn_minus lst avg)"
    by (simp add: getTradingPositionFromProfitLossFrame_def Let_def
        bn_isNegative_negated_of_int bn_negated_of_int odd bn_abs_negated a_def t_def
        avg_def lst_def)
  have rhs: "unrealized (getTradingPositionFromProfitLossFrame utils
            (frame\<lparr>ProfitLossChangedLog.netPosition := n\<rparr>) marketDoc v v24 ts balances False)
       = bn_times (bn_abs a) (if n < 0 then bn_minus avg lst else bn_minus lst avg)"
    by (simp add: getTradingPositionFromProfitLossFrame_def Let_def bn_isNegative_of_int
        a_def t_def avg_def lst_def)
  show ?thesis
  proof (cases "n = 0")
    case False
    then show ?thesis
      unfolding lhs rhs
      by (cases "0 < n") (simp_all add: bn_times_negated [symmetric] bn_minus_swap [symmetric])
  next
    case True
    then have "bn_negated a = a"
      using neg by (simp add: a_def)
    then have "a = ZERO \<or> a = NaN"
      by (rule bn_negated_eq_self)
    then show ?thesis
      unfolding lhs rhs using True by (auto simp: bn_times_zero_negated)
  qed
qed

lemma roundHalfUp_minus: "roundHalfUp dp (- r) = - roundHalfUp dp r"
  by (simp add: roundHalfUp_def)

lemma roundHalfUp_zero: "roundHalfUp dp 0 = 0"
  by (simp add: roundHalfUp_def)

lemma bn_negated_times: "bn_times (bn_negated x) y = bn_negated (bn_times x y)"
  by (cases x; cases y) (auto simp: bn_signedInf_def)

lemma bn_div_negated_TEN_POW_18:
  "bn_div (bn_negated x) TEN_POW_18 = bn_negated (bn_div x TEN_POW_18)"
  by (cases x) (simp_all add: TEN_POW_18_def roundHalfUp_minus bn_signedInf_def)

lemma sampleConversions_odd:
  "convertOnChainAmountToDisplayAmount sampleConversions (bn_negated x) t
     = bn_negated (convertOnChainAmountToDisplayAmount sampleConversions x t)"
  by (simp add: sampleConversions_def bn_negated_times bn_div_negated_TEN_POW_18)

theorem unrealized_sign_symmetry_witness:
  "unrealized (getTradingPositionFromProfitLossFrame sampleConversions
      (sampleFrame\<lparr>ProfitLossChangedLog.netPosition := - 5\<rparr>) sampleMarket (Fin 60) None 10
      None False)
   = bn_negated (unrealized (getTradingPositionFromProfitLossFrame sampleConversions
      (sampleFrame\<lparr>ProfitLossChangedLog.netPosition := 5\<rparr>) sampleMarket (Fin 60) None 10
      None False))"
  by (rule unrealized_sign_symmetry) (rule sampleConversions_odd)

text \<open>The two sides of the symmetry on the sample record: a long and a short position of five.\<close>

lemma sample_long_unrealized: "unrealized (getTradingPositionFromProfitLossFrame sampleConversions
      (sampleFrame\<lparr>ProfitLossChangedLog.netPosition := 5\<rparr>) sampleMarket (Fin 60) None 10
      None False) = Fin (1 / 100)"
  by code_simp

lemma sample_short_unrealized: "unrealized (getTradingPositionFromProfitLossFrame sampleConversions
      (sampleFrame\<lparr>ProfitLossChangedLog.netPosition := - 5\<rparr>) sampleMarket (Fin 60) None 10
      None False) = Fin (- 1 / 100)"
  by code_simp

lemma bn_div_by_zero_not_finite: "\<not> bn_isFinite (bn_toFixed dp (bn_div x ZERO))"
  by (cases x) (simp_all add: bn_signedInf_def)

text \<open>
  The three percentages that the calculator guards: each is the profit over its cost,
  printed with four places, and zero for a zero cost (realizedPercent divides by the
  absolute value of the realized cost). totalPercent is the total over the sum of the
  two costs, with no guard.
\<close>

lemma calculator_percents:
  fixes utils :: Conversions and frame marketDoc v v24 ts balances finalized
  defines "p \<equiv> getTradingPositionFromProfitLossFrame utils frame marketDoc v v24 ts
                  balances finalized"
  shows "realizedPercent p =
           (if bn_isZero (realizedCost p) then ZERO
            else bn_toFixed 4 (bn_div (realized p) (bn_abs (realizedCost p))))"
    and "unrealizedPercent p =
           (if bn_isZero (unrealizedCost p) then ZERO
            else bn_toFixed 4 (bn_div (unrealized p) (unrealizedCost p)))"
    and "unrealized24HrPercent p =
           (if bn_isZero (unrealizedCost p) then ZERO
            else bn_toFixed 4 (bn_div (unrealized24Hr p) (unrealizedCost p)))"
    and "totalPercent p =
           bn_toFixed 4 (bn_div (total p) (bn_plus (realizedCost p) (unrealizedCost p)))"
  by (simp_all add: p_def getTradingPositionFromProfitLossFrame_def Let_def roundHalfUp_zero)

lemma zero_cost_total:
  "bn_plus
     (bn_div (bn_div (bn_of_int 0) TEN_POW_18) TEN_POW_18)
     (bn_div (bn_times (bn_abs (bn_of_int 0)) (bn_div (bn_of_int a) TEN_POW_18)) TEN_POW_18)
   = ZERO"
  by (simp add: bn_of_int_def TEN_POW_18_def roundHalfUp_zero)

text \<open>
  C3. The claim fails for totalPercent: the calculator divides the total profit by the
  sum of the realized and unrealized cost without testing the sum, so a record with net
  position zero and realized cost zero gets a totalPercent that is not a number (NaN or
  an infinity), whatever the helpers, the valuation and the flag; on the sample record
  with these two fields zero it is NaN.
\<close>

theorem totalPercent_zero_cost_not_numeric:
  fixes utils :: Conversions
  shows "\<not> bn_isFinite (totalPercent (getTradingPositionFromProfitLossFrame utils
            (frame\<lparr>ProfitLossChangedLog.netPosition := 0,
                   ProfitLossChangedLog.realizedCost := 0\<rparr>)
            marketDoc v v24 ts balances finalized))
       \<and> totalPercent (getTradingPositionFromProfitLossFrame sampleConversions
            (sampleFrame\<lparr>ProfitLossChangedLog.netPosition := 0\<rparr>) sampleMarket (Fin 60) None 10
            None False) = NaN"
proof -
  have cost: "bn_plus
     (bn_div (bn_div (bn_of_int 0) TEN_POW_18) TEN_POW_18)
     (bn_div (bn_times (bn_abs (bn_of_int 0))
        (bn_div (bn_of_int (ProfitLossChangedLog.avgPrice frame)) TEN_POW_18)) TEN_POW_18)
     = ZERO"
    by (rule zero_cost_total)
  have cost': "bn_plus
     (bn_div (bn_times (bn_abs (bn_of_int 0))
        (bn_div (bn_of_int (ProfitLossChangedLog.avgPrice frame)) TEN_POW_18)) TEN_POW_18)
     (bn_div (bn_div (bn_of_int 0) TEN_POW_18) TEN_POW_18)
     = ZERO"
    by (simp add: bn_of_int_def TEN_POW_18_def roundHalfUp_zero)
  have general: "\<not> bn_isFinite (totalPercent (getTradingPositionFromProfitLossFrame utils
            (frame\<lparr>ProfitLossChangedLog.netPosition := 0,
                   ProfitLossChangedLog.realizedCost := 0\<rparr>)
            marketDoc v v24 ts balances finalized))"
  proof (cases finalized)
    case True
    then show ?thesis
      by (simp add: getTradingPositionFromProfitLossFrame_def Let_def cost'
          bn_div_by_zero_not_finite bn_isNegative_of_int del: bn_toFixed.simps bn_div.simps)
  next
    case False
    then show ?thesis
      by (simp add: getTradingPositionFromProfitLossFrame_def Let_def cost
          bn_div_by_zero_not_finite bn_isNegative_of_int del: bn_toFixed.simps bn_div.simps)
  qed
  have sample: "totalPercent (getTradingPositionFromProfitLossFrame sampleConversions
            (sampleFrame\<lparr>ProfitLossChangedLog.netPosition := 0\<rparr>) sampleMarket (Fin 60) None 10
            None False) = NaN"
    by code_simp
  from general sample show ?thesis by blast
qed

section \<open>Properties of the escrow estimator\<close>

lemma bn_min2_Fin: "bn_min2 (Fin x) (Fin y) = Fin (min x y)"
  by (simp add: bn_min2_def min_def)

lemma bn_min_Fin_fold: "bn_min (Fin x) (map Fin xs) = Fin (fold min xs x)"
  by (induction xs arbitrary: x) (simp_all add: bn_min2_Fin min.commute)

lemma bn_min_Fin: "bn_min (Fin x) (map Fin xs) = Fin (Min (set (x # xs)))"
  by (simp only: bn_min_Fin_fold Min.set_eq_fold)

lemma others_finBalances:
  "map snd (filter (\<lambda>kv. outcome' \<noteq> fst kv) (finBalances rs))
     = map Fin (otherBalances outcome' rs)"
  by (simp add: finBalances_def otherBalances_def filter_map o_def)

text \<open>The result of a bid on balances that are numbers, for an amount that is a number.\<close>

lemma bid_result:
  fixes rs :: "(string \<times> rat) list" and a :: rat and outcome' :: string
  defines "offset \<equiv> (case otherBalances outcome' rs of
                        [] \<Rightarrow> min a 0
                      | b # bs \<Rightarrow> min a (Min (set (b # bs))))"
  assumes "amount order = Fin a"
  shows "addEscrowedAmountsDecrementShares order outcome' 0 market' (finBalances rs)
     = (order\<lparr> tokensEscrowed :=
                  bn_times (Fin (a - offset))
                    (bn_minus (price order)
                       (bn_div (bn_at (MarketData.prices market') 0) QUINTILLION)),
                sharesEscrowed := Fin offset \<rparr>,
        finBalances
          (map (\<lambda>kv. if outcome' \<noteq> fst kv then (fst kv, snd kv - offset) else kv) rs))"
proof -
  have used: "bn_min2 (amount order)
                (case map snd (filter (\<lambda>kv. outcome' \<noteq> fst kv) (finBalances rs)) of
                   [] \<Rightarrow> ZERO
                 | b # bs \<Rightarrow> bn_min b bs) = Fin offset"
    unfolding others_finBalances offset_def assms(2)
    by (cases "otherBalances outcome' rs") (simp_all add: bn_min2_Fin bn_min_Fin)
  have bal: "map (\<lambda>kv. if outcome' \<noteq> fst kv then (fst kv, bn_minus (snd kv) x) else kv)
               (finBalances rs)
       = finBalances
          (map (\<lambda>kv. if outcome' \<noteq> fst kv then (fst kv, snd kv - offset) else kv) rs)"
    if "x = Fin offset" for x
    unfolding that by (induction rs) (simp_all add: finBalances_def bn_minus_def)
  show ?thesis
    by (simp add: addEscrowedAmountsDecrementShares_def Let_def used bal [OF used])
      (simp add: assms(2) bn_minus_def)
qed

text \<open>
  What a bid does: on balances that are numbers, a bid of amount a consumes the offset
  min(a, least balance among the other keys of the object) (min(a, 0) when the object
  has no other key), escrows (a - offset) * (order price - display minimum price)
  tokens, and takes the offset off the balance of every other key, leaving the order's
  own outcome as it is. A bid of 10 at 0.6 with the balances 7 and 4 under the other
  keys consumes 4, escrows tokens for 6 units (3.6 with a minimum price of zero) and
  leaves 3 and 0.
\<close>

lemma bid_escrow_present_keys:
  fixes rs :: "(string \<times> rat) list" and order :: Order and a :: rat
    and outcome' :: string
  defines "offset \<equiv> (case otherBalances outcome' rs of
                        [] \<Rightarrow> min a 0
                      | b # bs \<Rightarrow> min a (Min (set (b # bs))))"
  shows "addEscrowedAmountsDecrementShares (order\<lparr>amount := Fin a\<rparr>) outcome' 0 market'
            (finBalances rs)
     = (order\<lparr> amount := Fin a,
                tokensEscrowed :=
                  bn_times (Fin (a - offset))
                    (bn_minus (price order)
                       (bn_div (bn_at (MarketData.prices market') 0) QUINTILLION)),
                sharesEscrowed := Fin offset \<rparr>,
        finBalances
          (map (\<lambda>kv. if outcome' \<noteq> fst kv then (fst kv, snd kv - offset) else kv) rs))
   \<and> addEscrowedAmountsDecrementShares
        \<lparr> amount = Fin 10, price = Fin (6 / 10), tokensEscrowed = ZERO, sharesEscrowed = ZERO \<rparr>
        ''2'' 0 sampleMarket
        [(''0'', Fin 7), (''1'', Fin 4), (''2'', Fin 1)]
     = (\<lparr> amount = Fin 10, price = Fin (6 / 10), tokensEscrowed = Fin (6 * (6 / 10)),
          sharesEscrowed = Fin 4 \<rparr>,
        [(''0'', Fin 3), (''1'', Fin 0), (''2'', Fin 1)])"
proof -
  have general: "addEscrowedAmountsDecrementShares (order\<lparr>amount := Fin a\<rparr>) outcome' 0 market'
            (finBalances rs)
     = (order\<lparr> amount := Fin a,
                tokensEscrowed :=
                  bn_times (Fin (a - offset))
                    (bn_minus (price order)
                       (bn_div (bn_at (MarketData.prices market') 0) QUINTILLION)),
                sharesEscrowed := Fin offset \<rparr>,
        finBalances
          (map (\<lambda>kv. if outcome' \<noteq> fst kv then (fst kv, snd kv - offset) else kv) rs))"
    unfolding offset_def
    by (subst bid_result [where a = a]) simp_all
  have sample: "addEscrowedAmountsDecrementShares
        \<lparr> amount = Fin 10, price = Fin (6 / 10), tokensEscrowed = ZERO, sharesEscrowed = ZERO \<rparr>
        ''2'' 0 sampleMarket
        [(''0'', Fin 7), (''1'', Fin 4), (''2'', Fin 1)]
     = (\<lparr> amount = Fin 10, price = Fin (6 / 10), tokensEscrowed = Fin (6 * (6 / 10)),
          sharesEscrowed = Fin 4 \<rparr>,
        [(''0'', Fin 3), (''1'', Fin 0), (''2'', Fin 1)])"
    by code_simp
  from general sample show ?thesis by blast
qed

text \<open>
  C8. The claim fails where an other outcome has no key in the balance object, which
  holds only the outcomes with a balance row: with 5 shares of outcome 1 and no key for
  outcome 0, a bid of 10 at 0.6 on outcome 2 consumes an offset of 5 and escrows tokens
  for 5 units, where the least balance over the other outcomes is 0 (none of outcome 0)
  and the bid should escrow for all 10 units. With the same holdings and the key of
  outcome 0 present with balance 0 the code does consume 0 and escrow for 10 units.
\<close>

theorem bid_offset_skips_outcome_without_key:
  "addEscrowedAmountsDecrementShares
      \<lparr> amount = Fin 10, price = Fin (6 / 10), tokensEscrowed = ZERO, sharesEscrowed = ZERO \<rparr>
      ''2'' 0 sampleMarket [(''1'', Fin 5)]
     = (\<lparr> amount = Fin 10, price = Fin (6 / 10), tokensEscrowed = Fin (5 * (6 / 10)),
          sharesEscrowed = Fin 5 \<rparr>,
        [(''1'', Fin 0)])
   \<and> map_of [(''1'', Fin 5)] ''0'' = None
   \<and> addEscrowedAmountsDecrementShares
      \<lparr> amount = Fin 10, price = Fin (6 / 10), tokensEscrowed = ZERO, sharesEscrowed = ZERO \<rparr>
      ''2'' 0 sampleMarket [(''0'', Fin 0), (''1'', Fin 5)]
     = (\<lparr> amount = Fin 10, price = Fin (6 / 10), tokensEscrowed = Fin (10 * (6 / 10)),
          sharesEscrowed = Fin 0 \<rparr>,
        [(''0'', Fin 0), (''1'', Fin 5)])"
proof -
  have missing: "addEscrowedAmountsDecrementShares
      \<lparr> amount = Fin 10, price = Fin (6 / 10), tokensEscrowed = ZERO, sharesEscrowed = ZERO \<rparr>
      ''2'' 0 sampleMarket [(''1'', Fin 5)]
     = (\<lparr> amount = Fin 10, price = Fin (6 / 10), tokensEscrowed = Fin (5 * (6 / 10)),
          sharesEscrowed = Fin 5 \<rparr>,
        [(''1'', Fin 0)])"
    by code_simp
  have no_key: "map_of [(''1'', Fin 5)] ''0'' = None"
    by simp
  have present: "addEscrowedAmountsDecrementShares
      \<lparr> amount = Fin 10, price = Fin (6 / 10), tokensEscrowed = ZERO, sharesEscrowed = ZERO \<rparr>
      ''2'' 0 sampleMarket [(''0'', Fin 0), (''1'', Fin 5)]
     = (\<lparr> amount = Fin 10, price = Fin (6 / 10), tokensEscrowed = Fin (10 * (6 / 10)),
          sharesEscrowed = Fin 0 \<rparr>,
        [(''0'', Fin 0), (''1'', Fin 5)])"
    by code_simp
  from missing no_key present show ?thesis by blast
qed

lemma allNonNegative_finBalances:
  "allNonNegative (finBalances rs) = list_all (\<lambda>kv. 0 \<le> snd kv) rs"
  by (induction rs) (simp_all add: allNonNegative_def finBalances_def)

lemma nonNegative_Fin: "nonNegative v \<Longrightarrow> \<exists>r. v = Fin r \<and> 0 \<le> r"
  by (cases v) simp_all

lemma allNonNegative_fin:
  "allNonNegative balances \<Longrightarrow> \<exists>rs. balances = finBalances rs"
proof (induction balances)
  case Nil
  have "[] = finBalances []" by (simp add: finBalances_def)
  then show ?case by blast
next
  case (Cons kv balances)
  from Cons.prems have "nonNegative (snd kv)" and "allNonNegative balances"
    by (simp_all add: allNonNegative_def)
  then obtain r rs where "snd kv = Fin r" and "balances = finBalances rs"
    using Cons.IH nonNegative_Fin by blast
  then have "kv # balances = finBalances ((fst kv, r) # rs)"
    by (cases kv) (simp add: finBalances_def)
  then show ?case by blast
qed

lemma offset_le_other:
  assumes "kv \<in> set rs" and "outcome' \<noteq> fst kv"
  shows "(case otherBalances outcome' rs of
            [] \<Rightarrow> min a 0
          | b # bs \<Rightarrow> min a (Min (set (b # bs)))) \<le> snd kv"
proof -
  have mem: "snd kv \<in> set (otherBalances outcome' rs)"
    using assms by (force simp: otherBalances_def)
  then obtain b bs where split: "otherBalances outcome' rs = b # bs"
    by (cases "otherBalances outcome' rs") auto
  have "Min (set (b # bs)) \<le> snd kv"
    using mem unfolding split by (intro Min_le) simp_all
  then show ?thesis
    unfolding split by simp
qed

lemma map_of_finBalances: "map_of (finBalances rs) k = map_option Fin (map_of rs k)"
  by (induction rs) (simp_all add: finBalances_def)

lemma ownBalance_nonNegative:
  assumes "list_all (\<lambda>kv. 0 \<le> snd kv) rs"
  shows "\<exists>s. (case map_of (finBalances rs) k of None \<Rightarrow> ZERO | Some b \<Rightarrow> b) = Fin s \<and> 0 \<le> s"
proof (cases "map_of rs k")
  case None
  then show ?thesis by (simp add: map_of_finBalances)
next
  case (Some s)
  then have "(k, s) \<in> set rs" by (rule map_of_SomeD)
  with assms have "0 \<le> s" by (auto simp: list_all_iff)
  with Some show ?thesis by (simp add: map_of_finBalances)
qed

lemma insertIndexKey_nonNegative:
  "allNonNegative balances \<Longrightarrow> nonNegative v
     \<Longrightarrow> allNonNegative (insertIndexKey n k v balances)"
  by (induction balances) (simp_all add: allNonNegative_def split: option.split)

lemma setKey_nonNegative:
  assumes "allNonNegative balances" and "nonNegative v"
  shows "allNonNegative (setKey k v balances)"
proof -
  have replaced: "allNonNegative (map (\<lambda>kv. if fst kv = k then (k, v) else kv) balances)"
    using assms by (auto simp: allNonNegative_def list_all_iff)
  have appended: "allNonNegative (balances @ [(k, v)])"
    using assms by (simp add: allNonNegative_def)
  show ?thesis
    unfolding setKey_def
    using replaced appended insertIndexKey_nonNegative [OF assms]
    by (simp split: option.split)
qed

text \<open>The order of the keys after an assignment, on three examples.\<close>

lemma setKey_order_examples:
  "setKey ''0'' v [(''1'', a), (''x'', b)] = [(''0'', v), (''1'', a), (''x'', b)]"
  "setKey ''2'' v [(''1'', a), (''10'', b)] = [(''1'', a), (''2'', v), (''10'', b)]"
  "setKey ''01'' v [(''1'', a), (''x'', b)] = [(''1'', a), (''x'', b), (''01'', v)]"
  "setKey ''1'' v [(''0'', a), (''1'', b)] = [(''0'', a), (''1'', v)]"
  by (simp_all add: setKey_def arrayIndex_def decimalDigit_def)

text \<open>One order keeps the balances numbers that are not below zero.\<close>

lemma step_nonNegative:
  assumes "allNonNegative balances" and "bn_isFinite (amount order)"
  shows "allNonNegative
           (snd (addEscrowedAmountsDecrementShares order outcome' orderType market' balances))"
proof -
  obtain rs where rs: "balances = finBalances rs"
    using assms(1) allNonNegative_fin by blast
  have pos: "list_all (\<lambda>kv. 0 \<le> snd kv) rs"
    using assms(1) by (simp add: rs allNonNegative_finBalances)
  obtain a where a: "amount order = Fin a"
    using assms(2) by (cases "amount order") simp_all
  show ?thesis
  proof (cases "orderType = 0")
    case True
    define offset where "offset = (case otherBalances outcome' rs of
                        [] \<Rightarrow> min a 0
                      | b # bs \<Rightarrow> min a (Min (set (b # bs))))"
    have "0 \<le> snd kv - offset" if "kv \<in> set rs" "outcome' \<noteq> fst kv" for kv
      using offset_le_other [OF that, of a] by (simp add: offset_def)
    then have "list_all (\<lambda>kv. 0 \<le> snd kv)
                 (map (\<lambda>kv. if outcome' \<noteq> fst kv then (fst kv, snd kv - offset) else kv) rs)"
      using pos by (auto simp: list_all_iff)
    then show ?thesis
      unfolding True rs bid_result [OF a] offset_def [symmetric]
      by (simp add: allNonNegative_finBalances)
  next
    case False
    obtain s where s: "(case map_of balances outcome' of None \<Rightarrow> ZERO | Some b \<Rightarrow> b) = Fin s"
      and "0 \<le> s"
      using ownBalance_nonNegative [OF pos] unfolding rs by blast
    then have "nonNegative (if bn_gt (Fin s) ZERO then bn_minus (Fin s) (bn_min2 (Fin a) (Fin s))
                            else Fin s)"
      by (simp add: bn_gt_def bn_min2_Fin bn_minus_def)
    then show ?thesis
      using False assms(1)
      by (simp add: addEscrowedAmountsDecrementShares_def Let_def s a setKey_nonNegative)
  qed
qed

lemma sequence_nonNegative:
  "allNonNegative balances
     \<Longrightarrow> list_all (\<lambda>request. bn_isFinite (amount (fst request))) requests
     \<Longrightarrow> allNonNegative (decrementSharesForOrders market' balances requests)"
proof (induction requests arbitrary: balances)
  case Nil
  then show ?case by simp
next
  case (Cons request requests)
  obtain order outcome' orderType where request: "request = (order, outcome', orderType)"
    by (cases request)
  have "allNonNegative
          (snd (addEscrowedAmountsDecrementShares order outcome' orderType market' balances))"
    using Cons.prems by (intro step_nonNegative) (simp_all add: request)
  then show ?case
    using Cons.prems by (simp add: request Cons.IH)
qed

lemma bid_capped:
  assumes "allNonNegative balances" and "bn_isFinite (amount order)"
  shows "list_all (\<lambda>kv. outcome' = fst kv
            \<or> bn_lte (sharesEscrowed (fst (addEscrowedAmountsDecrementShares order outcome' 0
                         market' balances))) (snd kv)) balances"
proof -
  obtain rs where rs: "balances = finBalances rs"
    using assms(1) allNonNegative_fin by blast
  obtain a where a: "amount order = Fin a"
    using assms(2) by (cases "amount order") simp_all
  have "outcome' = fst kv \<or> bn_lte (Fin (case otherBalances outcome' rs of
                        [] \<Rightarrow> min a 0
                      | b # bs \<Rightarrow> min a (Min (set (b # bs))))) (Fin (snd kv))"
    if "kv \<in> set rs" for kv
    using offset_le_other [OF that, of outcome' a]
    by (auto simp: bn_lte_def bn_eq_def)
  then show ?thesis
    unfolding rs bid_result [OF a]
    by (auto simp: list_all_iff finBalances_def)
qed

lemma ask_capped:
  assumes "allNonNegative balances" and "bn_isFinite (amount order)" and "orderType \<noteq> 0"
  shows "bn_lte (sharesEscrowed (fst (addEscrowedAmountsDecrementShares order outcome' orderType
                    market' balances)))
           (case map_of balances outcome' of None \<Rightarrow> ZERO | Some b \<Rightarrow> b)"
proof -
  obtain rs where rs: "balances = finBalances rs"
    using assms(1) allNonNegative_fin by blast
  have pos: "list_all (\<lambda>kv. 0 \<le> snd kv) rs"
    using assms(1) by (simp add: rs allNonNegative_finBalances)
  obtain a where a: "amount order = Fin a"
    using assms(2) by (cases "amount order") simp_all
  obtain s where s: "(case map_of balances outcome' of None \<Rightarrow> ZERO | Some b \<Rightarrow> b) = Fin s"
    using ownBalance_nonNegative [OF pos] unfolding rs by blast
  show ?thesis
    using assms(3)
    by (simp add: addEscrowedAmountsDecrementShares_def Let_def s a bn_min2_Fin bn_lte_def
        bn_eq_def)
      linarith
qed

text \<open>
  C10. When every tracked balance is a number that is not below zero and the order's
  amount is a number, the balances after the order are again numbers not below zero,
  and so are the balances after any sequence of such orders on one market. A bid
  consumes no more than the balance of any other outcome, an ask no more than the
  balance of its own outcome.
\<close>

theorem balances_stay_nonNegative:
  assumes "allNonNegative balances"
    and "bn_isFinite (amount order)"
    and "list_all (\<lambda>request. bn_isFinite (amount (fst request))) requests"
  shows "allNonNegative
           (snd (addEscrowedAmountsDecrementShares order outcome' orderType market' balances))
       \<and> allNonNegative (decrementSharesForOrders market' balances requests)
       \<and> (if orderType = 0
          then list_all (\<lambda>kv. outcome' = fst kv
                  \<or> bn_lte (sharesEscrowed (fst (addEscrowedAmountsDecrementShares order outcome'
                               orderType market' balances))) (snd kv)) balances
          else bn_lte (sharesEscrowed (fst (addEscrowedAmountsDecrementShares order outcome'
                         orderType market' balances)))
                 (case map_of balances outcome' of None \<Rightarrow> ZERO | Some b \<Rightarrow> b))"
  using assms
  by (simp add: step_nonNegative sequence_nonNegative bid_capped ask_capped)

theorem balances_stay_nonNegative_witness:
  "allNonNegative
     (decrementSharesForOrders sampleMarket
        [(''0'', Fin 7), (''1'', Fin 4), (''2'', Fin 1)]
        [(\<lparr> amount = Fin 10, price = Fin (6 / 10), tokensEscrowed = ZERO,
             sharesEscrowed = ZERO \<rparr>, ''2'', 0),
         (\<lparr> amount = Fin 5, price = Fin (3 / 10), tokensEscrowed = ZERO,
             sharesEscrowed = ZERO \<rparr>, ''0'', 1)])"
proof -
  have h1: "allNonNegative [(''0'', Fin 7), (''1'', Fin 4), (''2'', Fin 1)]"
    by (simp add: allNonNegative_def)
  have h2: "bn_isFinite (amount \<lparr> amount = Fin 10, price = Fin (6 / 10), tokensEscrowed = ZERO,
             sharesEscrowed = ZERO \<rparr>)"
    by simp
  have h3: "list_all (\<lambda>request. bn_isFinite (amount (fst request)))
        [(\<lparr> amount = Fin 10, price = Fin (6 / 10), tokensEscrowed = ZERO,
             sharesEscrowed = ZERO \<rparr>, ''2'', 0::int),
         (\<lparr> amount = Fin 5, price = Fin (3 / 10), tokensEscrowed = ZERO,
             sharesEscrowed = ZERO \<rparr>, ''0'', 1)]"
    by simp
  from balances_stay_nonNegative [OF h1 h2 h3] show ?thesis by blast
qed

section \<open>Properties of the full-loss detector\<close>

lemma totalPositionValue_sum:
  "totalPositionValue (Some ob) index pn (bn_of_int s)
     = Inr (bn_of_int (s + (\<Sum>j < length pn. balanceAtIndex ob (index + j) * pn ! j)))"
proof (induction pn arbitrary: index s)
  case Nil
  show ?case by simp
next
  case (Cons x pn)
  have acc: "bn_plus (bn_of_int s) (bn_times (bn_of_int (balanceAtIndex ob index)) (bn_of_int x))
               = bn_of_int (s + balanceAtIndex ob index * x)"
    by (simp add: bn_of_int_def)
  show ?case
    by (simp add: acc Cons.IH sum.lessThan_Suc_shift add.assoc del: sum.lessThan_Suc)
qed

lemma totalPositionValue_resolved:
  "totalPositionValue (Some ob) 0 pn ZERO = Inr (bn_of_int (resolvedValue ob pn))"
  using totalPositionValue_sum [of ob 0 pn 0] by (simp add: resolvedValue_def bn_of_int_def)

lemma fullLossStep_known:
  assumes "markets m = Some marketDoc" and "balances m = Some ob"
  shows "fullLossStep markets balances (Inr result) m
           = Inr (if 0 < resolvedValue ob (MarketData.winningPayoutNumerators marketDoc)
                  then result else result @ [m])"
  using assms
  by (simp add: fullLossStep_def totalPositionValue_resolved bn_gt_def bn_of_int_def)

lemma foldl_fullLossStep:
  assumes "\<forall>m \<in> set ids. markets m \<noteq> None \<and> balances m \<noteq> None"
  shows "foldl (fullLossStep markets balances) (Inr acc) ids
           = Inr (acc @ filter (\<lambda>m. \<not> 0 < resolvedValue (the (balances m))
                                   (MarketData.winningPayoutNumerators (the (markets m)))) ids)"
  using assms
proof (induction ids arbitrary: acc)
  case Nil
  show ?case by simp
next
  case (Cons m ids)
  from Cons.prems obtain marketDoc ob where known: "markets m = Some marketDoc" "balances m = Some ob"
    by auto
  have rest: "\<forall>m \<in> set ids. markets m \<noteq> None \<and> balances m \<noteq> None"
    using Cons.prems by simp
  show ?case
    by (simp add: fullLossStep_known [of markets m marketDoc balances ob, OF known]
        Cons.IH [OF rest] known)
qed

lemma resolvedValue_nonneg:
  assumes "\<forall>i < length pn. 0 \<le> pn ! i \<and> 0 \<le> balanceAtIndex ob i"
  shows "0 \<le> resolvedValue ob pn"
  unfolding resolvedValue_def using assms by (intro sum_nonneg) simp

text \<open>
  What the detector does on complete data: when every finalized market has its document
  and the account has a balances entry in it,
  the detector returns a list; a finalized market whose payout numerators and balances
  are not below zero is in that list exactly when the sum over the outcomes of balance
  times winning payout numerator is zero. With numerators 0 and 1, the balances 5 and 0
  are a full loss, the balances 0 and 3 are not.
\<close>

lemma fullLoss_iff_zero_value_with_balances:
  assumes "\<forall>m \<in> set (map MarketFinalizedLog.market marketFinalizedResults).
             keyByMarket marketsData m \<noteq> None \<and> balances m \<noteq> None"
    and "marketId' \<in> set (map MarketFinalizedLog.market marketFinalizedResults)"
    and "keyByMarket marketsData marketId' = Some marketDoc"
    and "balances marketId' = Some outcomeBalance"
    and "\<forall>i < length (MarketData.winningPayoutNumerators marketDoc).
            0 \<le> MarketData.winningPayoutNumerators marketDoc ! i
          \<and> 0 \<le> balanceAtIndex outcomeBalance i"
  shows "(\<exists>result. getFullMarketPositionLoss marketFinalizedResults marketsData balances
                     = Inr result
            \<and> (marketId' \<in> set result)
                = (resolvedValue outcomeBalance (MarketData.winningPayoutNumerators marketDoc) = 0))
       \<and> getFullMarketPositionLoss
            [\<lparr> MarketFinalizedLog.market = ''0xm1'', MarketFinalizedLog.timestamp = 100,
               MarketFinalizedLog.winningPayoutNumerators = [0, 1] \<rparr>]
            [sampleMarket\<lparr> MarketData.winningPayoutNumerators := [0, 1] \<rparr>]
            [''0xm1'' \<mapsto> [''0x00'' \<mapsto> 5, ''0x01'' \<mapsto> 0]]
           = Inr [''0xm1'']
       \<and> getFullMarketPositionLoss
            [\<lparr> MarketFinalizedLog.market = ''0xm1'', MarketFinalizedLog.timestamp = 100,
               MarketFinalizedLog.winningPayoutNumerators = [0, 1] \<rparr>]
            [sampleMarket\<lparr> MarketData.winningPayoutNumerators := [0, 1] \<rparr>]
            [''0xm1'' \<mapsto> [''0x00'' \<mapsto> 0, ''0x01'' \<mapsto> 3]]
           = Inr []"
proof -
  let ?ids = "map MarketFinalizedLog.market marketFinalizedResults"
  let ?flag = "\<lambda>m. \<not> 0 < resolvedValue (the (balances m))
                 (MarketData.winningPayoutNumerators (the (keyByMarket marketsData m)))"
  have run: "getFullMarketPositionLoss marketFinalizedResults marketsData balances
               = Inr (filter ?flag ?ids)"
    using foldl_fullLossStep [OF assms(1), of "[]"]
    by (simp add: getFullMarketPositionLoss_def)
  have "0 \<le> resolvedValue outcomeBalance (MarketData.winningPayoutNumerators marketDoc)"
    using assms(5) by (rule resolvedValue_nonneg)
  then have "(marketId' \<in> set (filter ?flag ?ids))
       = (resolvedValue outcomeBalance (MarketData.winningPayoutNumerators marketDoc) = 0)"
    using assms(2,3,4) by auto
  with run have general: "\<exists>result. getFullMarketPositionLoss marketFinalizedResults marketsData
                     balances = Inr result
            \<and> (marketId' \<in> set result)
                = (resolvedValue outcomeBalance (MarketData.winningPayoutNumerators marketDoc) = 0)"
    by blast
  have loss: "getFullMarketPositionLoss
            [\<lparr> MarketFinalizedLog.market = ''0xm1'', MarketFinalizedLog.timestamp = 100,
               MarketFinalizedLog.winningPayoutNumerators = [0, 1] \<rparr>]
            [sampleMarket\<lparr> MarketData.winningPayoutNumerators := [0, 1] \<rparr>]
            [''0xm1'' \<mapsto> [''0x00'' \<mapsto> 5, ''0x01'' \<mapsto> 0]]
           = Inr [''0xm1'']"
    by (simp add: getFullMarketPositionLoss_def keyByMarket_def sampleMarket_def
        fullLossStep_def balanceAtIndex_def digitChar_def bn_of_int_def bn_gt_def)
  have no_loss: "getFullMarketPositionLoss
            [\<lparr> MarketFinalizedLog.market = ''0xm1'', MarketFinalizedLog.timestamp = 100,
               MarketFinalizedLog.winningPayoutNumerators = [0, 1] \<rparr>]
            [sampleMarket\<lparr> MarketData.winningPayoutNumerators := [0, 1] \<rparr>]
            [''0xm1'' \<mapsto> [''0x00'' \<mapsto> 0, ''0x01'' \<mapsto> 3]]
           = Inr []"
    by (simp add: getFullMarketPositionLoss_def keyByMarket_def sampleMarket_def
        fullLossStep_def balanceAtIndex_def digitChar_def bn_of_int_def bn_gt_def)
  from general loss no_loss show ?thesis by blast
qed

text \<open>
  C9. The claim fails for an account that has a position record in a finalized market
  and no share balance row there (an account that only created orders): every balance
  is then zero, so the sum is zero and the market is a full loss, but the detector reads
  a property of the missing balances entry and ends with a TypeError, for this market
  and for every other finalized market of the call, even one that it flags when taken
  alone.
\<close>

theorem fullLoss_without_balances_TypeError:
  "getFullMarketPositionLoss
      [\<lparr> MarketFinalizedLog.market = ''0xm1'', MarketFinalizedLog.timestamp = 100,
         MarketFinalizedLog.winningPayoutNumerators = [0, 1] \<rparr>]
      [sampleMarket\<lparr> MarketData.winningPayoutNumerators := [0, 1] \<rparr>]
      Map.empty
     = Inl TypeError
   \<and> getFullMarketPositionLoss
      [\<lparr> MarketFinalizedLog.market = ''0xm2'', MarketFinalizedLog.timestamp = 90,
         MarketFinalizedLog.winningPayoutNumerators = [0, 1] \<rparr>,
       \<lparr> MarketFinalizedLog.market = ''0xm1'', MarketFinalizedLog.timestamp = 100,
         MarketFinalizedLog.winningPayoutNumerators = [0, 1] \<rparr>]
      [sampleMarket\<lparr> MarketData.market := ''0xm2'',
                     MarketData.winningPayoutNumerators := [0, 1] \<rparr>,
       sampleMarket\<lparr> MarketData.winningPayoutNumerators := [0, 1] \<rparr>]
      [''0xm2'' \<mapsto> [''0x00'' \<mapsto> 5, ''0x01'' \<mapsto> 0]]
     = Inl TypeError
   \<and> getFullMarketPositionLoss
      [\<lparr> MarketFinalizedLog.market = ''0xm2'', MarketFinalizedLog.timestamp = 90,
         MarketFinalizedLog.winningPayoutNumerators = [0, 1] \<rparr>]
      [sampleMarket\<lparr> MarketData.market := ''0xm2'',
                     MarketData.winningPayoutNumerators := [0, 1] \<rparr>]
      [''0xm2'' \<mapsto> [''0x00'' \<mapsto> 5, ''0x01'' \<mapsto> 0]]
     = Inr [''0xm2'']"
  by (simp add: getFullMarketPositionLoss_def keyByMarket_def sampleMarket_def
      fullLossStep_def balanceAtIndex_def digitChar_def bn_of_int_def bn_gt_def)

section \<open>Properties of the valuation\<close>










end
